theory Spec2Isabelle
  imports Complex_Main
begin

section \<open>Python values\<close>

text \<open>
  The three scripts are dynamically typed Python.  The values that reach the functions
  modelled here are \<open>None\<close>, booleans, unbounded integers, floats and strings.

  A float is either finite, an infinity or not-a-number.  A finite float carries the real
  number it denotes; every binary64 value is such a real, and \<open>int()\<close>, \<open>abs()\<close> and the
  comparisons with integer literals that the source uses are exact on them.  Rounding (in
  \<open>float(token)\<close> and in float addition) is not modelled: where it matters the operation is
  a parameter of the model or the text says so.
\<close>

datatype pyfloat = Fin real | PosInf | NegInf | NaN

datatype pyval = PNone | PBool bool | PInt int | PFloat pyfloat | PStr string

text \<open>The exception classes the modelled code can raise and catch.\<close>

datatype exn = ValueError | OverflowError | TypeError | EOFError

text \<open>
  What a function writes to the console: \<open>Said s\<close> is \<open>print(s)\<close> of a literal message (or
  of an exception the source raised itself with that message), \<open>Caught p e\<close> is
  \<open>print(p, e)\<close> of a caught built-in exception of class \<open>e\<close> after the literal prefix \<open>p\<close>
  (empty for a bare \<open>print(e)\<close>).
\<close>

datatype event = Said string | Caught string exn

text \<open>\<open>isinstance(v, int)\<close>: \<open>bool\<close> is a subclass of \<open>int\<close>.  \<open>isinstance(v, float)\<close>.\<close>

fun isinstance_int :: "pyval \<Rightarrow> bool" where
  "isinstance_int (PInt _) = True"
| "isinstance_int (PBool _) = True"
| "isinstance_int _ = False"

fun isinstance_float :: "pyval \<Rightarrow> bool" where
  "isinstance_float (PFloat _) = True"
| "isinstance_float _ = False"

text \<open>The number a numeric value denotes; \<open>None\<close> (of the option type) for a non-number.\<close>

fun num_of :: "pyval \<Rightarrow> pyfloat option" where
  "num_of (PBool b) = Some (Fin (if b then 1 else 0))"
| "num_of (PInt i) = Some (Fin (real_of_int i))"
| "num_of (PFloat f) = Some f"
| "num_of PNone = None"
| "num_of (PStr _) = None"

text \<open>IEEE ordering of floats: every comparison with not-a-number is false.\<close>

fun float_lt :: "pyfloat \<Rightarrow> pyfloat \<Rightarrow> bool" where
  "float_lt NaN _ = False"
| "float_lt _ NaN = False"
| "float_lt (Fin a) (Fin b) = (a < b)"
| "float_lt (Fin _) PosInf = True"
| "float_lt (Fin _) NegInf = False"
| "float_lt PosInf _ = False"
| "float_lt NegInf NegInf = False"
| "float_lt NegInf _ = True"

fun float_le :: "pyfloat \<Rightarrow> pyfloat \<Rightarrow> bool" where
  "float_le NaN _ = False"
| "float_le _ NaN = False"
| "float_le (Fin a) (Fin b) = (a \<le> b)"
| "float_le (Fin _) PosInf = True"
| "float_le (Fin _) NegInf = False"
| "float_le PosInf PosInf = True"
| "float_le PosInf _ = False"
| "float_le NegInf _ = True"

text \<open>
  \<open>v <= k\<close> and \<open>k < v\<close> for an integer literal \<open>k\<close> resp. a float literal: defined on numbers,
  \<open>TypeError\<close> on \<open>None\<close> and on strings.
\<close>

definition py_le_lit :: "pyval \<Rightarrow> real \<Rightarrow> exn + bool" where
  "py_le_lit v k = (case num_of v of None \<Rightarrow> Inl TypeError | Some f \<Rightarrow> Inr (float_le f (Fin k)))"

definition py_lt_lit :: "pyval \<Rightarrow> real \<Rightarrow> exn + bool" where
  "py_lt_lit v k = (case num_of v of None \<Rightarrow> Inl TypeError | Some f \<Rightarrow> Inr (float_lt f (Fin k)))"

definition py_lit_lt :: "real \<Rightarrow> pyval \<Rightarrow> exn + bool" where
  "py_lit_lt k v = (case num_of v of None \<Rightarrow> Inl TypeError | Some f \<Rightarrow> Inr (float_lt (Fin k) f))"

section \<open>Tick interval selectors\<close>

text \<open>
  \<open>calculate_ytick_interval\<close> of \<open>plot_annual_books_userhome.py\<close>.  The chain of \<open>elif\<close>s is
  evaluated in order inside a \<open>try\<close>; a comparison that raises is caught, the error is
  printed and the function falls off its end, returning \<open>None\<close>.  All comparisons are with
  the same value, so either the first one raises or none does.
\<close>

definition annual_calculate_ytick_interval :: "pyval \<Rightarrow> event list \<times> int option" where
  "annual_calculate_ytick_interval max_value =
     (case py_le_lit max_value 10 of
        Inl e \<Rightarrow> ([Caught [] e], None)
      | Inr True \<Rightarrow> ([], Some 1)
      | Inr False \<Rightarrow>
     (case py_le_lit max_value 50 of
        Inl e \<Rightarrow> ([Caught [] e], None)
      | Inr True \<Rightarrow> ([], Some 5)
      | Inr False \<Rightarrow>
     (case py_le_lit max_value 100 of
        Inl e \<Rightarrow> ([Caught [] e], None)
      | Inr True \<Rightarrow> ([], Some 10)
      | Inr False \<Rightarrow>
     (case py_le_lit max_value 500 of
        Inl e \<Rightarrow> ([Caught [] e], None)
      | Inr True \<Rightarrow> ([], Some 50)
      | Inr False \<Rightarrow> ([], Some 100)))))"

text \<open>\<open>calculate_ytick_interval\<close> of \<open>plot_weekly_hours_userhome.py\<close>.\<close>

definition weekly_calculate_ytick_interval :: "pyval \<Rightarrow> event list \<times> int option" where
  "weekly_calculate_ytick_interval max_value =
     (case py_le_lit max_value 5 of
        Inl e \<Rightarrow> ([Caught [] e], None)
      | Inr True \<Rightarrow> ([], Some 1)
      | Inr False \<Rightarrow>
     (case py_le_lit max_value 10 of
        Inl e \<Rightarrow> ([Caught [] e], None)
      | Inr True \<Rightarrow> ([], Some 2)
      | Inr False \<Rightarrow>
     (case py_le_lit max_value 15 of
        Inl e \<Rightarrow> ([Caught [] e], None)
      | Inr True \<Rightarrow> ([], Some 3)
      | Inr False \<Rightarrow>
     (case py_le_lit max_value 20 of
        Inl e \<Rightarrow> ([Caught [] e], None)
      | Inr True \<Rightarrow> ([], Some 4)
      | Inr False \<Rightarrow>
     (case py_le_lit max_value 24 of
        Inl e \<Rightarrow> ([Caught [] e], None)
      | Inr True \<Rightarrow> ([], Some 5)
      | Inr False \<Rightarrow> ([], Some 8))))))"

section \<open>Validators\<close>

text \<open>
  \<open>v >= 0\<close> for the integer literal \<open>0\<close>, and the per-element test of the monthly validator,
  \<open>isinstance(books, int) and books >= 0\<close>.  \<open>and\<close> evaluates its right operand only when the
  left one is true.
\<close>

definition py_ge_lit :: "pyval \<Rightarrow> real \<Rightarrow> exn + bool" where
  "py_ge_lit v k = (case num_of v of None \<Rightarrow> Inl TypeError | Some f \<Rightarrow> Inr (float_le (Fin k) f))"

definition yearly_element_ok :: "pyval \<Rightarrow> exn + bool" where
  "yearly_element_ok books = (if isinstance_int books then py_ge_lit books 0 else Inr False)"

text \<open>
  The \<open>for\<close> loop of \<open>verify_yearly_data\<close>: the flag \<open>verification\<close> is set when an element
  passes the test and is never cleared.
\<close>

fun yearly_loop :: "bool \<Rightarrow> pyval list \<Rightarrow> exn + bool" where
  "yearly_loop verification [] = Inr verification"
| "yearly_loop verification (books # rest) =
     (case yearly_element_ok books of
        Inl e \<Rightarrow> Inl e
      | Inr True \<Rightarrow> yearly_loop True rest
      | Inr False \<Rightarrow> yearly_loop verification rest)"

text \<open>
  \<open>verify_yearly_data\<close>.  The argument is a list or \<open>None\<close> (what \<open>get_yearly_data\<close> returns
  after an error); \<open>len(None)\<close> raises \<open>TypeError\<close>, which the \<open>except\<close> clause prints.
\<close>

definition verify_yearly_data :: "pyval list option \<Rightarrow> event list \<times> bool" where
  "verify_yearly_data yearly_data =
     (case yearly_data of
        None \<Rightarrow> ([Caught [] TypeError], False)
      | Some xs \<Rightarrow>
          if length xs = 12 then
            (case yearly_loop False xs of
               Inl e \<Rightarrow> ([Caught [] e], False)
             | Inr verification \<Rightarrow> ([], verification))
          else
            ([Said ''The data list should have 12 elements, each corresponding sequentially to books read in a month.''],
             False))"

text \<open>
  The per-element test of the weekly validator,
  \<open>isinstance(hours, float) and 0.0 < hours < 24.00\<close>; the chained comparison is
  \<open>0.0 < hours and hours < 24.00\<close>.
\<close>

definition weekly_element_ok :: "pyval \<Rightarrow> exn + bool" where
  "weekly_element_ok hours =
     (if isinstance_float hours then
        (case py_lit_lt 0 hours of
           Inl e \<Rightarrow> Inl e
         | Inr False \<Rightarrow> Inr False
         | Inr True \<Rightarrow> py_lt_lit hours 24)
      else Inr False)"

fun weekly_loop :: "bool \<Rightarrow> pyval list \<Rightarrow> exn + bool" where
  "weekly_loop verification [] = Inr verification"
| "weekly_loop verification (hours # rest) =
     (case weekly_element_ok hours of
        Inl e \<Rightarrow> Inl e
      | Inr True \<Rightarrow> weekly_loop True rest
      | Inr False \<Rightarrow> weekly_loop verification rest)"

definition verify_weekly_data :: "pyval list option \<Rightarrow> event list \<times> bool" where
  "verify_weekly_data weekly_data =
     (case weekly_data of
        None \<Rightarrow> ([Caught [] TypeError], False)
      | Some xs \<Rightarrow>
          if length xs = 7 then
            (case weekly_loop False xs of
               Inl e \<Rightarrow> ([Caught [] e], False)
             | Inr verification \<Rightarrow> ([], verification))
          else
            ([Said ''The data list should have 7 elements, each corresponding sequentially to a day of the week.''],
             False))"

section \<open>Console input\<close>

text \<open>
  The console is the list of lines still to be read: \<open>input()\<close> returns the first one and
  raises \<open>EOFError\<close> when there is none.  A Python string is modelled as a list of
  characters with code points below 256.

  \<open>get_selected_text\<close> of \<open>text_to_image_dalle.py\<close>.  The guard is the chained comparison
  \<open>0 >= len(sel_text) > 600\<close>, that is \<open>0 >= len(sel_text) and len(sel_text) > 600\<close>.  The
  recursive call reads the next line.  The result is the text printed, the value returned
  (\<open>None\<close> after a caught error) and the lines left on the console.
\<close>

fun get_selected_text :: "string list \<Rightarrow> event list \<times> string option \<times> string list" where
  "get_selected_text [] = ([Caught ''Error encountered: '' EOFError], None, [])"
| "get_selected_text (sel_text # rest) =
     (if 0 \<ge> int (length sel_text) \<and> int (length sel_text) > 600 then
        (case get_selected_text rest of
           (out, r, rest') \<Rightarrow>
             (Said ''Selected text cannot be empty nor can it exceed 1000 charcters!'' # out, r, rest'))
      else ([], Some sel_text, rest))"

subsection \<open>Splitting a line and reading numbers\<close>

text \<open>
  \<open>str.split()\<close> without arguments: the maximal runs of non-whitespace characters.  The
  whitespace characters below code point 256 are listed.
\<close>

definition is_space :: "char \<Rightarrow> bool" where
  "is_space c = ((of_char c :: nat) \<in> {9, 10, 11, 12, 13, 28, 29, 30, 31, 32, 133, 160})"

fun split_go :: "string \<Rightarrow> string \<Rightarrow> string list" where
  "split_go cur [] = (if cur = [] then [] else [cur])"
| "split_go cur (c # cs) =
     (if is_space c then (if cur = [] then split_go [] cs else cur # split_go [] cs)
      else split_go (cur @ [c]) cs)"

definition py_split :: "string \<Rightarrow> string list" where
  "py_split s = split_go [] s"

text \<open>
  \<open>float(token)\<close> on a token without whitespace, following the grammar of the language
  reference: an optional sign, then \<open>inf\<close>, \<open>infinity\<close> or \<open>nan\<close> in any case, or a decimal
  number (digits with single underscores between them, an optional fraction, an optional
  exponent).  \<open>None\<close> stands for \<open>ValueError\<close>.  The value is the exact decimal value: it is
  the value of the built-in whenever that decimal is a binary64 number (every integer of
  absolute value up to \<open>2 ^ 53\<close> is).
\<close>

definition is_digit :: "char \<Rightarrow> bool" where
  "is_digit c = (48 \<le> (of_char c :: nat) \<and> (of_char c :: nat) \<le> 57)"

definition digit_val :: "char \<Rightarrow> nat" where
  "digit_val c = of_char c - 48"

definition lower :: "char \<Rightarrow> char" where
  "lower c = (if 65 \<le> (of_char c :: nat) \<and> (of_char c :: nat) \<le> 90
              then char_of ((of_char c :: nat) + 32) else c)"

text \<open>\<open>digitpart v n s\<close>: the value and the number of the digits read so far, then the input.\<close>

fun digitpart :: "nat \<Rightarrow> nat \<Rightarrow> string \<Rightarrow> nat \<times> nat \<times> string" where
  "digitpart v n [] = (v, n, [])"
| "digitpart v n (c # cs) =
     (if is_digit c then digitpart (10 * v + digit_val c) (Suc n) cs
      else if c = CHR ''_'' \<and> 0 < n \<and> (case cs of [] \<Rightarrow> False | d # _ \<Rightarrow> is_digit d)
        then digitpart v n cs
      else (v, n, c # cs))"

definition strip_sign :: "string \<Rightarrow> bool \<times> string" where
  "strip_sign s =
     (case s of
        [] \<Rightarrow> (False, [])
      | c # cs \<Rightarrow>
          if c = CHR ''-'' then (True, cs)
          else if c = CHR ''+'' then (False, cs)
          else (False, s))"

definition exponent :: "string \<Rightarrow> int option" where
  "exponent s =
     (case s of
        [] \<Rightarrow> Some 0
      | c # cs \<Rightarrow>
          if c = CHR ''e'' \<or> c = CHR ''E'' then
            (case strip_sign cs of
               (neg, ds) \<Rightarrow>
                 (case digitpart 0 0 ds of
                    (v, n, rest) \<Rightarrow>
                      if 0 < n \<and> rest = [] then Some (if neg then - int v else int v)
                      else None))
          else None)"

definition scale10 :: "real \<Rightarrow> int \<Rightarrow> real" where
  "scale10 m e = (if 0 \<le> e then m * 10 ^ nat e else m / 10 ^ nat (- e))"

definition decimal :: "string \<Rightarrow> real option" where
  "decimal s =
     (case digitpart 0 0 s of
        (v1, n1, r1) \<Rightarrow>
          (case r1 of
             [] \<Rightarrow> if n1 = 0 then None else Some (real v1)
           | c # fs \<Rightarrow>
               if c = CHR ''.'' then
                 (case digitpart 0 0 fs of
                    (v2, n2, r2) \<Rightarrow>
                      if n1 = 0 \<and> n2 = 0 then None
                      else map_option (scale10 (real (v1 * 10 ^ n2 + v2)))
                             (map_option (\<lambda>e. e - int n2) (exponent r2)))
               else if n1 = 0 then None
               else map_option (scale10 (real v1)) (exponent r1)))"

definition py_float :: "string \<Rightarrow> pyfloat option" where
  "py_float tok =
     (case strip_sign tok of
        (neg, body) \<Rightarrow>
          if map lower body = ''inf'' \<or> map lower body = ''infinity''
            then Some (if neg then NegInf else PosInf)
          else if map lower body = ''nan'' then Some NaN
          else map_option (\<lambda>r. Fin (if neg then - r else r)) (decimal body))"

text \<open>
  \<open>int(x)\<close> of a float truncates towards zero; it raises \<open>ValueError\<close> on not-a-number and
  \<open>OverflowError\<close> on an infinity.
\<close>

fun py_int :: "pyfloat \<Rightarrow> exn + int" where
  "py_int (Fin r) = Inr (if 0 \<le> r then \<lfloor>r\<rfloor> else \<lceil>r\<rceil>)"
| "py_int NaN = Inl ValueError"
| "py_int PosInf = Inl OverflowError"
| "py_int NegInf = Inl OverflowError"

section \<open>The monthly pipeline\<close>

text \<open>
  \<open>get_yearly_data\<close>.  \<open>flt\<close> is the built-in \<open>float\<close> on a token (\<open>None\<close> for its
  \<open>ValueError\<close>); \<^const>\<open>py_float\<close> is the instance used for concrete runs.  \<open>map\<close> is lazy,
  so each token is converted when the loop reaches it; the loop appends
  \<open>abs(int(books))\<close>.  Any exception leaves the \<open>try\<close>, is printed after the prefix, and the
  function returns \<open>None\<close>.
\<close>

fun yearly_collect :: "(string \<Rightarrow> pyfloat option) \<Rightarrow> pyval list \<Rightarrow> string list \<Rightarrow> exn + pyval list" where
  "yearly_collect flt yearly_data [] = Inr yearly_data"
| "yearly_collect flt yearly_data (tok # toks) =
     (case flt tok of
        None \<Rightarrow> Inl ValueError
      | Some books \<Rightarrow>
          (case py_int books of
             Inl e \<Rightarrow> Inl e
           | Inr n \<Rightarrow> yearly_collect flt (yearly_data @ [PInt (abs n)]) toks))"

definition get_yearly_data :: "(string \<Rightarrow> pyfloat option) \<Rightarrow> string list \<Rightarrow> event list \<times> pyval list option" where
  "get_yearly_data flt console =
     (case console of
        [] \<Rightarrow> ([Caught ''Error in accepting yearly data: '' EOFError], None)
      | line # _ \<Rightarrow>
          (case yearly_collect flt [] (py_split line) of
             Inl e \<Rightarrow> ([Caught ''Error in accepting yearly data: '' e], None)
           | Inr yearly_data \<Rightarrow> ([], Some yearly_data)))"

text \<open>
  \<open>a > b\<close> as \<open>max\<close> uses it: numbers compare by value, strings by code points, anything
  else raises \<open>TypeError\<close>.
\<close>

fun str_lt :: "string \<Rightarrow> string \<Rightarrow> bool" where
  "str_lt [] [] = False"
| "str_lt [] (d # ds) = True"
| "str_lt (c # cs) [] = False"
| "str_lt (c # cs) (d # ds) =
     (if (of_char c :: nat) < of_char d then True
      else if (of_char d :: nat) < of_char c then False
      else str_lt cs ds)"

definition py_gt :: "pyval \<Rightarrow> pyval \<Rightarrow> exn + bool" where
  "py_gt a b =
     (case (num_of a, num_of b) of
        (Some x, Some y) \<Rightarrow> Inr (float_lt y x)
      | _ \<Rightarrow>
          (case (a, b) of
             (PStr s, PStr t) \<Rightarrow> Inr (str_lt t s)
           | _ \<Rightarrow> Inl TypeError))"

text \<open>
  The built-in \<open>max\<close> of a list: the first element is the candidate, a later item replaces
  it when \<open>item > candidate\<close>; \<open>ValueError\<close> on the empty list.
\<close>

fun max_loop :: "pyval \<Rightarrow> pyval list \<Rightarrow> exn + pyval" where
  "max_loop best [] = Inr best"
| "max_loop best (item # rest) =
     (case py_gt item best of
        Inl e \<Rightarrow> Inl e
      | Inr True \<Rightarrow> max_loop item rest
      | Inr False \<Rightarrow> max_loop best rest)"

definition py_max :: "pyval list \<Rightarrow> exn + pyval" where
  "py_max xs = (case xs of [] \<Rightarrow> Inl ValueError | x # rest \<Rightarrow> max_loop x rest)"

text \<open>
  \<open>max(books_read) + ytick_interval\<close>.  The interval is an \<open>int\<close>, or \<open>None\<close> when
  \<open>calculate_ytick_interval\<close> caught an error, and adding \<open>None\<close> raises \<open>TypeError\<close>
  whatever the left operand is.  The
  sum of a float and an integer is the exact sum here (binary64 would round it); the
  collector only produces integers.
\<close>

fun float_add_int :: "pyfloat \<Rightarrow> int \<Rightarrow> pyfloat" where
  "float_add_int (Fin r) k = Fin (r + real_of_int k)"
| "float_add_int PosInf k = PosInf"
| "float_add_int NegInf k = NegInf"
| "float_add_int NaN k = NaN"

fun py_add :: "pyval \<Rightarrow> int option \<Rightarrow> exn + pyval" where
  "py_add v None = Inl TypeError"
| "py_add (PInt a) (Some k) = Inr (PInt (a + k))"
| "py_add (PBool b) (Some k) = Inr (PInt ((if b then 1 else 0) + k))"
| "py_add (PFloat f) (Some k) = Inr (PFloat (float_add_int f k))"
| "py_add PNone (Some k) = Inl TypeError"
| "py_add (PStr s) (Some k) = Inl TypeError"

text \<open>
  \<open>range(0, stop, step)\<close> as a list.  \<open>stop\<close> must be an \<open>int\<close> (\<open>bool\<close> is one); a float, a
  string or \<open>None\<close> raises \<open>TypeError\<close>, and a zero step raises \<open>ValueError\<close>.
\<close>

definition range_len :: "int \<Rightarrow> int \<Rightarrow> nat" where
  "range_len stop step =
     (if 0 < step then (if 0 < stop then nat ((stop - 1) div step + 1) else 0)
      else (if stop < 0 then nat ((- stop - 1) div (- step) + 1) else 0))"

fun py_range0 :: "pyval \<Rightarrow> int \<Rightarrow> exn + int list" where
  "py_range0 (PInt stop) step =
     (if step = 0 then Inl ValueError
      else Inr (map (\<lambda>i. int i * step) [0..<range_len stop step]))"
| "py_range0 (PBool b) step =
     (if step = 0 then Inl ValueError
      else Inr (map (\<lambda>i. int i * step) [0..<range_len (if b then 1 else 0) step]))"
| "py_range0 (PFloat f) step = Inl TypeError"
| "py_range0 (PStr s) step = Inl TypeError"
| "py_range0 PNone step = Inl TypeError"

text \<open>
  What \<open>plot_books_per_month\<close> asks of the drawing library: the \<open>extent\<close> of the background
  image (line 214), \<open>set_xlim\<close> (line 225), \<open>set_ylim\<close> (line 226) and \<open>set_yticks\<close>
  (line 255).
\<close>

record chart =
  extent :: "pyval list"
  xlim :: "int \<times> int"
  ylim :: "int \<times> pyval"
  yticks :: "int list"

text \<open>
  \<open>plot_books_per_month\<close>: the length check, the tick interval of the maximum, the upper
  bound \<open>max(books_read) + ytick_interval\<close> of the y-axis and the ticks
  \<open>range(0, max(books_read) + ytick_interval, ytick_interval)\<close>.  An exception is caught by
  the function's \<open>except\<close> clause and printed; the explicit \<open>ValueError\<close> prints its own
  message.  The calls into matplotlib, numpy and scipy are outside the model: they are
  taken to return, and the result is the chart they are asked to draw (\<open>None\<close> when an
  exception ended the function before \<open>plt.show()\<close>).
\<close>

definition plot_books_per_month :: "pyval list option \<Rightarrow> event list \<times> chart option" where
  "plot_books_per_month books_read =
     (case books_read of
        None \<Rightarrow> ([Caught [] TypeError], None)
      | Some xs \<Rightarrow>
          if length xs \<noteq> 12 then ([Said ''The length of books_read lists must be 12.''], None)
          else
            (case py_max xs of
               Inl e \<Rightarrow> ([Caught [] e], None)
             | Inr m \<Rightarrow>
                 (case annual_calculate_ytick_interval m of
                    (out, None) \<Rightarrow> (out @ [Caught [] TypeError], None)
                  | (out, Some ytick_interval) \<Rightarrow>
                      (case py_add m (Some ytick_interval) of
                         Inl e \<Rightarrow> (out @ [Caught [] e], None)
                       | Inr upper \<Rightarrow>
                           (case py_range0 upper ytick_interval of
                              Inl e \<Rightarrow> (out @ [Caught [] e], None)
                            | Inr ticks \<Rightarrow>
                                (out,
                                 Some \<lparr>extent = [PInt 0, PInt 12, PInt 0, upper],
                                       xlim = (1, 12), ylim = (0, upper),
                                       yticks = ticks\<rparr>))))))"

text \<open>
  \<open>main\<close> of \<open>plot_annual_books_userhome.py\<close>: collect, validate, and plot when the validator
  returned \<open>True\<close>.
\<close>

definition annual_main :: "(string \<Rightarrow> pyfloat option) \<Rightarrow> string list \<Rightarrow> event list \<times> chart option" where
  "annual_main flt console =
     (case get_yearly_data flt console of
        (out1, books_read) \<Rightarrow>
          (case verify_yearly_data books_read of
             (out2, ver) \<Rightarrow>
               if ver then
                 (case plot_books_per_month books_read of
                    (out3, drawn) \<Rightarrow> (out1 @ out2 @ out3, drawn))
               else (out1 @ out2, None)))"

section \<open>Properties of the tick interval selectors\<close>

lemma py_le_lit_num: "num_of v = Some (Fin m) \<Longrightarrow> py_le_lit v k = Inr (m \<le> k)"
  by (simp add: py_le_lit_def)

text \<open>
  Claim C3.  The monthly selector maps a maximum \<open>m\<close> to 1 if \<open>m \<le> 10\<close>, to 5 if
  \<open>10 < m \<le> 50\<close>, to 10 if \<open>50 < m \<le> 100\<close>, to 50 if \<open>100 < m \<le> 500\<close> and to 100 otherwise,
  and prints nothing.  \<open>v\<close> is any \<open>bool\<close>, \<open>int\<close> or finite \<open>float\<close> of value \<open>m\<close>; the table
  holds for every such value, the non-negative ones included.  The instances at \<open>10\<close> and
  at \<open>10.0001\<close> follow.
\<close>

theorem annual_tick_interval_table:
  assumes "num_of v = Some (Fin m)"
  shows "(m \<le> 10 \<longrightarrow> annual_calculate_ytick_interval v = ([], Some 1)) \<and>
         (10 < m \<and> m \<le> 50 \<longrightarrow> annual_calculate_ytick_interval v = ([], Some 5)) \<and>
         (50 < m \<and> m \<le> 100 \<longrightarrow> annual_calculate_ytick_interval v = ([], Some 10)) \<and>
         (100 < m \<and> m \<le> 500 \<longrightarrow> annual_calculate_ytick_interval v = ([], Some 50)) \<and>
         (500 < m \<longrightarrow> annual_calculate_ytick_interval v = ([], Some 100))"
  by (simp add: annual_calculate_ytick_interval_def py_le_lit_num [OF assms])

theorem annual_tick_interval_table_witness:
  "annual_calculate_ytick_interval (PInt 10) = ([], Some 1) \<and>
   annual_calculate_ytick_interval (PFloat (Fin (100001 / 10000))) = ([], Some 5)"
  using annual_tick_interval_table [of "PInt 10" 10]
        annual_tick_interval_table [of "PFloat (Fin (100001 / 10000))" "100001 / 10000"]
  by simp

text \<open>
  Claim C4.  The weekly selector maps a maximum \<open>m\<close> to 1 if \<open>m \<le> 5\<close>, to 2 if
  \<open>5 < m \<le> 10\<close>, to 3 if \<open>10 < m \<le> 15\<close>, to 4 if \<open>15 < m \<le> 20\<close>, to 5 if \<open>20 < m \<le> 24\<close> and
  to 8 otherwise, and prints nothing.  The instances at \<open>24\<close> and at \<open>25\<close> follow.
\<close>

theorem weekly_tick_interval_table:
  assumes "num_of v = Some (Fin m)"
  shows "(m \<le> 5 \<longrightarrow> weekly_calculate_ytick_interval v = ([], Some 1)) \<and>
         (5 < m \<and> m \<le> 10 \<longrightarrow> weekly_calculate_ytick_interval v = ([], Some 2)) \<and>
         (10 < m \<and> m \<le> 15 \<longrightarrow> weekly_calculate_ytick_interval v = ([], Some 3)) \<and>
         (15 < m \<and> m \<le> 20 \<longrightarrow> weekly_calculate_ytick_interval v = ([], Some 4)) \<and>
         (20 < m \<and> m \<le> 24 \<longrightarrow> weekly_calculate_ytick_interval v = ([], Some 5)) \<and>
         (24 < m \<longrightarrow> weekly_calculate_ytick_interval v = ([], Some 8))"
  by (simp add: weekly_calculate_ytick_interval_def py_le_lit_num [OF assms])

theorem weekly_tick_interval_table_witness:
  "weekly_calculate_ytick_interval (PInt 24) = ([], Some 5) \<and>
   weekly_calculate_ytick_interval (PInt 25) = ([], Some 8)"
  using weekly_tick_interval_table [of "PInt 24" 24] weekly_tick_interval_table [of "PInt 25" 25]
  by simp

section \<open>Properties of the monthly validator\<close>

text \<open>The per-element test never raises: the comparison is reached only for an \<open>int\<close>.\<close>

lemma yearly_element_ok_total: "\<exists>b. yearly_element_ok x = Inr b"
  by (cases x) (auto simp: yearly_element_ok_def py_ge_lit_def)

lemma yearly_loop_True: "yearly_loop True xs = Inr True"
proof (induction xs)
  case Nil
  show ?case by simp
next
  case (Cons x xs)
  obtain b where "yearly_element_ok x = Inr b" using yearly_element_ok_total by blast
  with Cons show ?case by (cases b) simp_all
qed

lemma yearly_loop_any:
  "x \<in> set xs \<Longrightarrow> yearly_element_ok x = Inr True \<Longrightarrow> yearly_loop v xs = Inr True"
proof (induction xs arbitrary: v)
  case Nil
  then show ?case by simp
next
  case (Cons y ys)
  obtain b where b: "yearly_element_ok y = Inr b" using yearly_element_ok_total by blast
  show ?case
  proof (cases "x = y")
    case True
    with Cons.prems show ?thesis by (simp add: yearly_loop_True)
  next
    case False
    with Cons.prems have "x \<in> set ys" by simp
    from Cons.IH [OF this Cons.prems(2)] b show ?thesis
      by (cases b) (simp_all add: yearly_loop_True)
  qed
qed

text \<open>
  Claim C2.  The monthly validator accepts on any match: a list of exactly 12 elements
  with at least one non-negative \<open>int\<close> among them is accepted, whatever the other elements
  are, and nothing is printed.  The instance has eleven elements that fail the test.
\<close>

theorem verify_yearly_data_any_match:
  assumes "length xs = 12" and "PInt n \<in> set xs" and "0 \<le> n"
  shows "verify_yearly_data (Some xs) = ([], True)"
proof -
  have "yearly_element_ok (PInt n) = Inr True"
    using assms(3) by (simp add: yearly_element_ok_def py_ge_lit_def)
  from yearly_loop_any [OF assms(2) this] assms(1) show ?thesis
    by (simp add: verify_yearly_data_def)
qed

theorem verify_yearly_data_any_match_witness:
  "length [PInt (- 4), PStr ''x'', PNone, PFloat (Fin (3 / 2)), PInt (- 1), PInt 7,
            PFloat NaN, PNone, PStr [], PInt (- 9), PFloat (Fin (- 2)), PNone] = 12 \<and>
   verify_yearly_data
     (Some [PInt (- 4), PStr ''x'', PNone, PFloat (Fin (3 / 2)), PInt (- 1), PInt 7,
            PFloat NaN, PNone, PStr [], PInt (- 9), PFloat (Fin (- 2)), PNone]) = ([], True)"
  using verify_yearly_data_any_match
    [of "[PInt (- 4), PStr ''x'', PNone, PFloat (Fin (3 / 2)), PInt (- 1), PInt 7,
            PFloat NaN, PNone, PStr [], PInt (- 9), PFloat (Fin (- 2)), PNone]" 7]
  by simp

text \<open>
  Claim C5.  A list whose length is not 12 is rejected by the monthly validator, whatever
  it contains, and the message describing the expected shape is printed.
\<close>

theorem verify_yearly_data_wrong_length:
  "length xs \<noteq> 12 \<Longrightarrow>
   verify_yearly_data (Some xs) =
     ([Said ''The data list should have 12 elements, each corresponding sequentially to books read in a month.''],
      False)"
  by (simp add: verify_yearly_data_def)

theorem verify_yearly_data_wrong_length_witness:
  "length [PInt 1, PInt 2, PInt 3] \<noteq> 12 \<and>
   verify_yearly_data (Some [PInt 1, PInt 2, PInt 3]) =
     ([Said ''The data list should have 12 elements, each corresponding sequentially to books read in a month.''],
      False)"
  using verify_yearly_data_wrong_length [of "[PInt 1, PInt 2, PInt 3]"]
  by simp

section \<open>Properties of the weekly validator\<close>

lemma weekly_element_ok_non_float: "\<not> isinstance_float x \<Longrightarrow> weekly_element_ok x = Inr False"
  by (simp add: weekly_element_ok_def)

lemma weekly_element_ok_float: "weekly_element_ok (PFloat (Fin r)) = Inr (0 < r \<and> r < 24)"
  by (simp add: weekly_element_ok_def py_lit_lt_def py_lt_lit_def split: bool.splits)

lemma weekly_loop_non_float:
  "list_all (\<lambda>x. \<not> isinstance_float x) xs \<Longrightarrow> weekly_loop v xs = Inr v"
  by (induction xs arbitrary: v) (simp_all add: weekly_element_ok_non_float)

text \<open>
  Claim C6.  The weekly validator rejects the list \<open>[0.0, 1, 2, 3, 4, 5, 6]\<close> (a float
  followed by six \<open>int\<close>s, as the literals are written), and the lower bound is exclusive:
  the per-element test rejects the float \<open>0.0\<close>, so that a week of seven \<open>0.0\<close> is rejected
  too.
\<close>

theorem verify_weekly_data_zero_first:
  "verify_weekly_data (Some [PFloat (Fin 0), PInt 1, PInt 2, PInt 3, PInt 4, PInt 5, PInt 6]) = ([], False) \<and>
   weekly_element_ok (PFloat (Fin 0)) = Inr False \<and>
   verify_weekly_data (Some (replicate 7 (PFloat (Fin 0)))) = ([], False)"
  by (simp add: verify_weekly_data_def weekly_element_ok_float weekly_element_ok_non_float
      numeral_eq_Suc)

theorem verify_weekly_data_zero_first_witness:
  "verify_weekly_data (Some [PFloat (Fin 0), PInt 1, PInt 2, PInt 3, PInt 4, PInt 5, PInt 6]) = ([], False)"
  using verify_weekly_data_zero_first by simp

text \<open>
  The same week with every value a float, as \<open>get_weekly_data\<close> would deliver it, is
  accepted: one element inside the range is enough.
\<close>

lemma verify_weekly_data_floats_accepted:
  "verify_weekly_data (Some [PFloat (Fin 0), PFloat (Fin 1), PFloat (Fin 2), PFloat (Fin 3),
     PFloat (Fin 4), PFloat (Fin 5), PFloat (Fin 6)]) = ([], True)"
  by (simp add: verify_weekly_data_def weekly_element_ok_float)

text \<open>
  Claim C10.  The per-element test of the weekly validator requires a \<open>float\<close>: a list of
  seven \<open>int\<close>s, each strictly between 0 and 24, is rejected.
\<close>

theorem verify_weekly_data_rejects_ints:
  assumes "length xs = 7" and "list_all (\<lambda>x. \<exists>n. x = PInt n \<and> 0 < n \<and> n < 24) xs"
  shows "verify_weekly_data (Some xs) = ([], False)"
proof -
  from assms(2) have "list_all (\<lambda>x. \<not> isinstance_float x) xs"
    by (auto simp: list_all_iff)
  from weekly_loop_non_float [OF this] assms(1) show ?thesis
    by (simp add: verify_weekly_data_def)
qed

theorem verify_weekly_data_rejects_ints_witness:
  "length [PInt 1, PInt 2, PInt 3, PInt 4, PInt 5, PInt 6, PInt 7] = 7 \<and>
   verify_weekly_data (Some [PInt 1, PInt 2, PInt 3, PInt 4, PInt 5, PInt 6, PInt 7]) = ([], False)"
  using verify_weekly_data_rejects_ints [of "[PInt 1, PInt 2, PInt 3, PInt 4, PInt 5, PInt 6, PInt 7]"]
  by simp

section \<open>Properties of the text prompt\<close>

text \<open>
  Claim C8.  The guard of \<open>get_selected_text\<close> is false for every string, so the first line
  read is returned unchanged, nothing is printed and no further line is read.  The
  instances are the empty string and a string of 601 characters.
\<close>

theorem get_selected_text_returns_first_line:
  "\<not> (0 \<ge> int (length sel_text) \<and> int (length sel_text) > 600) \<and>
   get_selected_text (sel_text # rest) = ([], Some sel_text, rest)"
  by auto

theorem get_selected_text_returns_first_line_witness:
  "get_selected_text ([] # [''next'']) = ([], Some [], [''next'']) \<and>
   get_selected_text (replicate 601 (CHR ''a'') # [''next'']) =
     ([], Some (replicate 601 (CHR ''a'')), [''next''])"
  using get_selected_text_returns_first_line [of "[]" "[''next'']"]
        get_selected_text_returns_first_line [of "replicate 601 (CHR ''a'')" "[''next'']"]
  by simp

section \<open>Properties of the monthly collector\<close>

text \<open>
  When the loop of the collector finishes, every token has been converted: the list
  grew by one \<open>abs(int(float(token)))\<close> per token, in order.
\<close>

lemma yearly_collect_shape:
  "yearly_collect flt acc toks = Inr ys \<Longrightarrow>
   \<exists>zs. ys = acc @ zs \<and>
     list_all2 (\<lambda>tok y. \<exists>f k. flt tok = Some f \<and> py_int f = Inr k \<and> y = PInt (abs k)) toks zs"
proof (induction toks arbitrary: acc)
  case Nil
  then show ?case by simp
next
  case (Cons tok toks)
  from Cons.prems obtain f k where f: "flt tok = Some f" and k: "py_int f = Inr k"
    and rest: "yearly_collect flt (acc @ [PInt (abs k)]) toks = Inr ys"
    by (auto split: option.splits sum.splits)
  from Cons.IH [OF rest] obtain zs where zs: "ys = (acc @ [PInt (abs k)]) @ zs"
    and all: "list_all2 (\<lambda>tok y. \<exists>f k. flt tok = Some f \<and> py_int f = Inr k \<and> y = PInt (abs k)) toks zs"
    by blast
  have "ys = acc @ (PInt (abs k) # zs)" using zs by simp
  moreover have "list_all2 (\<lambda>tok y. \<exists>f k. flt tok = Some f \<and> py_int f = Inr k \<and> y = PInt (abs k))
      (tok # toks) (PInt (abs k) # zs)"
    using f k all by auto
  ultimately show ?case by blast
qed

lemma collect_signed_line:
  "get_yearly_data py_float [''-3 4.7 -0.5''] = ([], Some [PInt 3, PInt 4, PInt 0])"
  by code_simp

text \<open>
  Claim C9.  Whenever \<open>get_yearly_data\<close> returns a list, every element of it is a
  non-negative \<open>int\<close> that passes the per-element test of the validator, and the list is,
  token by token, \<open>abs(int(float(token)))\<close> of the line read: a negative number is replaced
  by its absolute value, not rejected.  This holds for every behaviour \<open>flt\<close> of the
  built-in \<open>float\<close>.  The instance reads the line \<open>-3 4.7 -0.5\<close>.
\<close>

theorem get_yearly_data_non_negative:
  assumes "get_yearly_data flt console = (out, Some ys)"
  shows "list_all (\<lambda>y. \<exists>n. y = PInt n \<and> 0 \<le> n \<and> yearly_element_ok y = Inr True) ys \<and>
         (\<exists>line rest. console = line # rest \<and>
            list_all2 (\<lambda>tok y. \<exists>f k. flt tok = Some f \<and> py_int f = Inr k \<and> y = PInt (abs k))
              (py_split line) ys)"
proof -
  from assms obtain line rest where c: "console = line # rest"
    and col: "yearly_collect flt [] (py_split line) = Inr ys"
    by (auto simp: get_yearly_data_def split: list.splits sum.splits)
  from yearly_collect_shape [OF col]
  have all: "list_all2 (\<lambda>tok y. \<exists>f k. flt tok = Some f \<and> py_int f = Inr k \<and> y = PInt (abs k))
      (py_split line) ys"
    by simp
  have "list_all (\<lambda>y. \<exists>n. y = PInt n \<and> 0 \<le> n \<and> yearly_element_ok y = Inr True) ys"
    unfolding list_all_iff
  proof
    fix y assume "y \<in> set ys"
    with all obtain k where "y = PInt (abs k)"
      by (auto simp: list_all2_conv_all_nth in_set_conv_nth)
    then show "\<exists>n. y = PInt n \<and> 0 \<le> n \<and> yearly_element_ok y = Inr True"
      by (simp add: yearly_element_ok_def py_ge_lit_def)
  qed
  with c all show ?thesis by blast
qed

theorem get_yearly_data_non_negative_witness:
  "get_yearly_data py_float [''-3 4.7 -0.5''] = ([], Some [PInt 3, PInt 4, PInt 0]) \<and>
   list_all (\<lambda>y. \<exists>n. y = PInt n \<and> 0 \<le> n \<and> yearly_element_ok y = Inr True)
     [PInt 3, PInt 4, PInt 0]"
  using get_yearly_data_non_negative [OF collect_signed_line] collect_signed_line by blast

end
